theory Spec2Isabelle
  imports Main
begin

section \<open>Strings and the character classes of the runtime\<close>

text \<open>
  The program is Python 3: a \<open>str\<close> is a sequence of Unicode code points, \<open>len\<close> counts
  code points, and the \<open>re\<close> module classifies them with the Unicode database of the
  interpreter (\<open>\d\<close> is \<open>Py_UNICODE_ISDECIMAL\<close>, \<open>\s\<close> is \<open>Py_UNICODE_ISSPACE\<close>, \<open>\w\<close> is
  \<open>Py_UNICODE_ISALNUM\<close> or the underscore). A code point is an integer here, as \<open>ord\<close> gives it, and a
  string is a list of them. The tables below are those of Unicode 14.0.0 (CPython 3.11).
\<close>

type_synonym codepoint = int
type_synonym ustr = "codepoint list"

definition str :: "string \<Rightarrow> ustr" where
  "str s = map of_char s"

text \<open>The code point of the digit zero of every non-ASCII decimal script (category Nd);
  the nine code points that follow each are its digits one to nine.\<close>

definition nd_zeros :: "codepoint list" where
  "nd_zeros = [1632, 1776, 1984, 2406, 2534, 2662, 2790, 2918, 3046, 3174, 3302, 3430, 3558,
    3664, 3792, 3872, 4160, 4240, 6112, 6160, 6470, 6608, 6784, 6800, 6992, 7088, 7232, 7248,
    42528, 43216, 43264, 43472, 43504, 43600, 44016, 65296, 66720, 68912, 69734, 69872, 69942,
    70096, 70384, 70736, 70864, 71248, 71360, 71472, 71904, 72016, 72784, 73040, 73120, 92768,
    92864, 93008, 120782, 120792, 120802, 120812, 120822, 123200, 123632, 125264, 130032]"

text \<open>\<open>Py_UNICODE_TODECIMAL\<close>: the value of a decimal digit, of any script.\<close>

definition decimal_value :: "codepoint \<Rightarrow> nat option" where
  "decimal_value c =
     (if c < 128 then (if 48 \<le> c \<and> c \<le> 57 then Some (nat (c - 48)) else None)
      else (case find (\<lambda>z. z \<le> c \<and> c < z + 10) nd_zeros of
              None \<Rightarrow> None
            | Some z \<Rightarrow> Some (nat (c - z))))"

definition is_decimal :: "codepoint \<Rightarrow> bool" where
  "is_decimal c = (decimal_value c \<noteq> None)"

definition ascii_digit :: "codepoint \<Rightarrow> bool" where
  "ascii_digit c = (48 \<le> c \<and> c \<le> 57)"

text \<open>\<open>Py_UNICODE_ISSPACE\<close>, the class \<open>\s\<close>.\<close>

definition is_space :: "codepoint \<Rightarrow> bool" where
  "is_space c =
     (if c < 128 then (9 \<le> c \<and> c \<le> 13) \<or> (28 \<le> c \<and> c \<le> 32)
      else c \<in> set [133, 160, 5760, 8232, 8233, 8239, 8287, 12288] \<or> (8192 \<le> c \<and> c \<le> 8202))"

text \<open>The maximal ranges of non-ASCII code points that \<open>Py_UNICODE_ISALNUM\<close> accepts.\<close>

definition uni_alnum_ranges :: "(codepoint \<times> codepoint) list" where
  "uni_alnum_ranges = [
    (170, 170), (178, 179), (181, 181), (185, 186), (188, 190), (192, 214), (216, 246),
    (248, 705), (710, 721), (736, 740), (748, 748), (750, 750), (880, 884), (886, 887),
    (890, 893), (895, 895), (902, 902), (904, 906), (908, 908), (910, 929), (931, 1013),
    (1015, 1153), (1162, 1327), (1329, 1366), (1369, 1369), (1376, 1416), (1488, 1514),
    (1519, 1522), (1568, 1610), (1632, 1641), (1646, 1647), (1649, 1747), (1749, 1749),
    (1765, 1766), (1774, 1788), (1791, 1791), (1808, 1808), (1810, 1839), (1869, 1957),
    (1969, 1969), (1984, 2026), (2036, 2037), (2042, 2042), (2048, 2069), (2074, 2074),
    (2084, 2084), (2088, 2088), (2112, 2136), (2144, 2154), (2160, 2183), (2185, 2190),
    (2208, 2249), (2308, 2361), (2365, 2365), (2384, 2384), (2392, 2401), (2406, 2415),
    (2417, 2432), (2437, 2444), (2447, 2448), (2451, 2472), (2474, 2480), (2482, 2482),
    (2486, 2489), (2493, 2493), (2510, 2510), (2524, 2525), (2527, 2529), (2534, 2545),
    (2548, 2553), (2556, 2556), (2565, 2570), (2575, 2576), (2579, 2600), (2602, 2608),
    (2610, 2611), (2613, 2614), (2616, 2617), (2649, 2652), (2654, 2654), (2662, 2671),
    (2674, 2676), (2693, 2701), (2703, 2705), (2707, 2728), (2730, 2736), (2738, 2739),
    (2741, 2745), (2749, 2749), (2768, 2768), (2784, 2785), (2790, 2799), (2809, 2809),
    (2821, 2828), (2831, 2832), (2835, 2856), (2858, 2864), (2866, 2867), (2869, 2873),
    (2877, 2877), (2908, 2909), (2911, 2913), (2918, 2927), (2929, 2935), (2947, 2947),
    (2949, 2954), (2958, 2960), (2962, 2965), (2969, 2970), (2972, 2972), (2974, 2975),
    (2979, 2980), (2984, 2986), (2990, 3001), (3024, 3024), (3046, 3058), (3077, 3084),
    (3086, 3088), (3090, 3112), (3114, 3129), (3133, 3133), (3160, 3162), (3165, 3165),
    (3168, 3169), (3174, 3183), (3192, 3198), (3200, 3200), (3205, 3212), (3214, 3216),
    (3218, 3240), (3242, 3251), (3253, 3257), (3261, 3261), (3293, 3294), (3296, 3297),
    (3302, 3311), (3313, 3314), (3332, 3340), (3342, 3344), (3346, 3386), (3389, 3389),
    (3406, 3406), (3412, 3414), (3416, 3425), (3430, 3448), (3450, 3455), (3461, 3478),
    (3482, 3505), (3507, 3515), (3517, 3517), (3520, 3526), (3558, 3567), (3585, 3632),
    (3634, 3635), (3648, 3654), (3664, 3673), (3713, 3714), (3716, 3716), (3718, 3722),
    (3724, 3747), (3749, 3749), (3751, 3760), (3762, 3763), (3773, 3773), (3776, 3780),
    (3782, 3782), (3792, 3801), (3804, 3807), (3840, 3840), (3872, 3891), (3904, 3911),
    (3913, 3948), (3976, 3980), (4096, 4138), (4159, 4169), (4176, 4181), (4186, 4189),
    (4193, 4193), (4197, 4198), (4206, 4208), (4213, 4225), (4238, 4238), (4240, 4249),
    (4256, 4293), (4295, 4295), (4301, 4301), (4304, 4346), (4348, 4680), (4682, 4685),
    (4688, 4694), (4696, 4696), (4698, 4701), (4704, 4744), (4746, 4749), (4752, 4784),
    (4786, 4789), (4792, 4798), (4800, 4800), (4802, 4805), (4808, 4822), (4824, 4880),
    (4882, 4885), (4888, 4954), (4969, 4988), (4992, 5007), (5024, 5109), (5112, 5117),
    (5121, 5740), (5743, 5759), (5761, 5786), (5792, 5866), (5870, 5880), (5888, 5905),
    (5919, 5937), (5952, 5969), (5984, 5996), (5998, 6000), (6016, 6067), (6103, 6103),
    (6108, 6108), (6112, 6121), (6128, 6137), (6160, 6169), (6176, 6264), (6272, 6276),
    (6279, 6312), (6314, 6314), (6320, 6389), (6400, 6430), (6470, 6509), (6512, 6516),
    (6528, 6571), (6576, 6601), (6608, 6618), (6656, 6678), (6688, 6740), (6784, 6793),
    (6800, 6809), (6823, 6823), (6917, 6963), (6981, 6988), (6992, 7001), (7043, 7072),
    (7086, 7141), (7168, 7203), (7232, 7241), (7245, 7293), (7296, 7304), (7312, 7354),
    (7357, 7359), (7401, 7404), (7406, 7411), (7413, 7414), (7418, 7418), (7424, 7615),
    (7680, 7957), (7960, 7965), (7968, 8005), (8008, 8013), (8016, 8023), (8025, 8025),
    (8027, 8027), (8029, 8029), (8031, 8061), (8064, 8116), (8118, 8124), (8126, 8126),
    (8130, 8132), (8134, 8140), (8144, 8147), (8150, 8155), (8160, 8172), (8178, 8180),
    (8182, 8188), (8304, 8305), (8308, 8313), (8319, 8329), (8336, 8348), (8450, 8450),
    (8455, 8455), (8458, 8467), (8469, 8469), (8473, 8477), (8484, 8484), (8486, 8486),
    (8488, 8488), (8490, 8493), (8495, 8505), (8508, 8511), (8517, 8521), (8526, 8526),
    (8528, 8585), (9312, 9371), (9450, 9471), (10102, 10131), (11264, 11492), (11499, 11502),
    (11506, 11507), (11517, 11517), (11520, 11557), (11559, 11559), (11565, 11565),
    (11568, 11623), (11631, 11631), (11648, 11670), (11680, 11686), (11688, 11694),
    (11696, 11702), (11704, 11710), (11712, 11718), (11720, 11726), (11728, 11734),
    (11736, 11742), (11823, 11823), (12293, 12295), (12321, 12329), (12337, 12341),
    (12344, 12348), (12353, 12438), (12445, 12447), (12449, 12538), (12540, 12543),
    (12549, 12591), (12593, 12686), (12690, 12693), (12704, 12735), (12784, 12799),
    (12832, 12841), (12872, 12879), (12881, 12895), (12928, 12937), (12977, 12991),
    (13312, 19903), (19968, 42124), (42192, 42237), (42240, 42508), (42512, 42539),
    (42560, 42606), (42623, 42653), (42656, 42735), (42775, 42783), (42786, 42888),
    (42891, 42954), (42960, 42961), (42963, 42963), (42965, 42969), (42994, 43009),
    (43011, 43013), (43015, 43018), (43020, 43042), (43056, 43061), (43072, 43123),
    (43138, 43187), (43216, 43225), (43250, 43255), (43259, 43259), (43261, 43262),
    (43264, 43301), (43312, 43334), (43360, 43388), (43396, 43442), (43471, 43481),
    (43488, 43492), (43494, 43518), (43520, 43560), (43584, 43586), (43588, 43595),
    (43600, 43609), (43616, 43638), (43642, 43642), (43646, 43695), (43697, 43697),
    (43701, 43702), (43705, 43709), (43712, 43712), (43714, 43714), (43739, 43741),
    (43744, 43754), (43762, 43764), (43777, 43782), (43785, 43790), (43793, 43798),
    (43808, 43814), (43816, 43822), (43824, 43866), (43868, 43881), (43888, 44002),
    (44016, 44025), (44032, 55203), (55216, 55238), (55243, 55291), (63744, 64109),
    (64112, 64217), (64256, 64262), (64275, 64279), (64285, 64285), (64287, 64296),
    (64298, 64310), (64312, 64316), (64318, 64318), (64320, 64321), (64323, 64324),
    (64326, 64433), (64467, 64829), (64848, 64911), (64914, 64967), (65008, 65019),
    (65136, 65140), (65142, 65276), (65296, 65305), (65313, 65338), (65345, 65370),
    (65382, 65470), (65474, 65479), (65482, 65487), (65490, 65495), (65498, 65500),
    (65536, 65547), (65549, 65574), (65576, 65594), (65596, 65597), (65599, 65613),
    (65616, 65629), (65664, 65786), (65799, 65843), (65856, 65912), (65930, 65931),
    (66176, 66204), (66208, 66256), (66273, 66299), (66304, 66339), (66349, 66378),
    (66384, 66421), (66432, 66461), (66464, 66499), (66504, 66511), (66513, 66517),
    (66560, 66717), (66720, 66729), (66736, 66771), (66776, 66811), (66816, 66855),
    (66864, 66915), (66928, 66938), (66940, 66954), (66956, 66962), (66964, 66965),
    (66967, 66977), (66979, 66993), (66995, 67001), (67003, 67004), (67072, 67382),
    (67392, 67413), (67424, 67431), (67456, 67461), (67463, 67504), (67506, 67514),
    (67584, 67589), (67592, 67592), (67594, 67637), (67639, 67640), (67644, 67644),
    (67647, 67669), (67672, 67702), (67705, 67742), (67751, 67759), (67808, 67826),
    (67828, 67829), (67835, 67867), (67872, 67897), (67968, 68023), (68028, 68047),
    (68050, 68096), (68112, 68115), (68117, 68119), (68121, 68149), (68160, 68168),
    (68192, 68222), (68224, 68255), (68288, 68295), (68297, 68324), (68331, 68335),
    (68352, 68405), (68416, 68437), (68440, 68466), (68472, 68497), (68521, 68527),
    (68608, 68680), (68736, 68786), (68800, 68850), (68858, 68899), (68912, 68921),
    (69216, 69246), (69248, 69289), (69296, 69297), (69376, 69415), (69424, 69445),
    (69457, 69460), (69488, 69505), (69552, 69579), (69600, 69622), (69635, 69687),
    (69714, 69743), (69745, 69746), (69749, 69749), (69763, 69807), (69840, 69864),
    (69872, 69881), (69891, 69926), (69942, 69951), (69956, 69956), (69959, 69959),
    (69968, 70002), (70006, 70006), (70019, 70066), (70081, 70084), (70096, 70106),
    (70108, 70108), (70113, 70132), (70144, 70161), (70163, 70187), (70272, 70278),
    (70280, 70280), (70282, 70285), (70287, 70301), (70303, 70312), (70320, 70366),
    (70384, 70393), (70405, 70412), (70415, 70416), (70419, 70440), (70442, 70448),
    (70450, 70451), (70453, 70457), (70461, 70461), (70480, 70480), (70493, 70497),
    (70656, 70708), (70727, 70730), (70736, 70745), (70751, 70753), (70784, 70831),
    (70852, 70853), (70855, 70855), (70864, 70873), (71040, 71086), (71128, 71131),
    (71168, 71215), (71236, 71236), (71248, 71257), (71296, 71338), (71352, 71352),
    (71360, 71369), (71424, 71450), (71472, 71483), (71488, 71494), (71680, 71723),
    (71840, 71922), (71935, 71942), (71945, 71945), (71948, 71955), (71957, 71958),
    (71960, 71983), (71999, 71999), (72001, 72001), (72016, 72025), (72096, 72103),
    (72106, 72144), (72161, 72161), (72163, 72163), (72192, 72192), (72203, 72242),
    (72250, 72250), (72272, 72272), (72284, 72329), (72349, 72349), (72368, 72440),
    (72704, 72712), (72714, 72750), (72768, 72768), (72784, 72812), (72818, 72847),
    (72960, 72966), (72968, 72969), (72971, 73008), (73030, 73030), (73040, 73049),
    (73056, 73061), (73063, 73064), (73066, 73097), (73112, 73112), (73120, 73129),
    (73440, 73458), (73648, 73648), (73664, 73684), (73728, 74649), (74752, 74862),
    (74880, 75075), (77712, 77808), (77824, 78894), (82944, 83526), (92160, 92728),
    (92736, 92766), (92768, 92777), (92784, 92862), (92864, 92873), (92880, 92909),
    (92928, 92975), (92992, 92995), (93008, 93017), (93019, 93025), (93027, 93047),
    (93053, 93071), (93760, 93846), (93952, 94026), (94032, 94032), (94099, 94111),
    (94176, 94177), (94179, 94179), (94208, 100343), (100352, 101589), (101632, 101640),
    (110576, 110579), (110581, 110587), (110589, 110590), (110592, 110882), (110928, 110930),
    (110948, 110951), (110960, 111355), (113664, 113770), (113776, 113788), (113792, 113800),
    (113808, 113817), (119520, 119539), (119648, 119672), (119808, 119892), (119894, 119964),
    (119966, 119967), (119970, 119970), (119973, 119974), (119977, 119980), (119982, 119993),
    (119995, 119995), (119997, 120003), (120005, 120069), (120071, 120074), (120077, 120084),
    (120086, 120092), (120094, 120121), (120123, 120126), (120128, 120132), (120134, 120134),
    (120138, 120144), (120146, 120485), (120488, 120512), (120514, 120538), (120540, 120570),
    (120572, 120596), (120598, 120628), (120630, 120654), (120656, 120686), (120688, 120712),
    (120714, 120744), (120746, 120770), (120772, 120779), (120782, 120831), (122624, 122654),
    (123136, 123180), (123191, 123197), (123200, 123209), (123214, 123214), (123536, 123565),
    (123584, 123627), (123632, 123641), (124896, 124902), (124904, 124907), (124909, 124910),
    (124912, 124926), (124928, 125124), (125127, 125135), (125184, 125251), (125259, 125259),
    (125264, 125273), (126065, 126123), (126125, 126127), (126129, 126132), (126209, 126253),
    (126255, 126269), (126464, 126467), (126469, 126495), (126497, 126498), (126500, 126500),
    (126503, 126503), (126505, 126514), (126516, 126519), (126521, 126521), (126523, 126523),
    (126530, 126530), (126535, 126535), (126537, 126537), (126539, 126539), (126541, 126543),
    (126545, 126546), (126548, 126548), (126551, 126551), (126553, 126553), (126555, 126555),
    (126557, 126557), (126559, 126559), (126561, 126562), (126564, 126564), (126567, 126570),
    (126572, 126578), (126580, 126583), (126585, 126588), (126590, 126590), (126592, 126601),
    (126603, 126619), (126625, 126627), (126629, 126633), (126635, 126651), (127232, 127244),
    (130032, 130041), (131072, 173791), (173824, 177976), (177984, 178205), (178208, 183969),
    (183984, 191456), (194560, 195101), (196608, 201546)]"

definition in_ranges :: "codepoint \<Rightarrow> (codepoint \<times> codepoint) list \<Rightarrow> bool" where
  "in_ranges c rs = list_ex (\<lambda>(lo, hi). lo \<le> c \<and> c \<le> hi) rs"

text \<open>\<open>Py_UNICODE_ISALNUM\<close> is alphabetic, decimal, digit or numeric; the class \<open>\w\<close> adds
  the underscore.\<close>

definition is_alnum :: "codepoint \<Rightarrow> bool" where
  "is_alnum c =
     (if is_decimal c then True
      else if c < 128 then (65 \<le> c \<and> c \<le> 90) \<or> (97 \<le> c \<and> c \<le> 122)
      else in_ranges c uni_alnum_ranges)"

definition is_word :: "codepoint \<Rightarrow> bool" where
  "is_word c = (if c = 95 then True else is_alnum c)"

section \<open>The built-in \<open>int\<close> on strings\<close>

text \<open>
  \<open>int(s)\<close> in base ten: surrounding whitespace is skipped (the Unicode whitespace except the
  four ASCII separators 28 to 31, which \<open>int\<close> does not skip), one sign may follow, then
  decimal digits of any script, single underscores allowed between two digits. Anything
  else raises \<open>ValueError\<close>. The validator applies it to slices of two characters only.
\<close>

datatype exn = ValueError

definition int_space :: "codepoint \<Rightarrow> bool" where
  "int_space c = (is_space c \<and> \<not> (28 \<le> c \<and> c \<le> 31))"

fun int_digits :: "nat \<Rightarrow> ustr \<Rightarrow> nat option" where
  "int_digits acc [] = Some acc"
| "int_digits acc (c # cs) =
     (if c = 95 then
        (case cs of
           [] \<Rightarrow> None
         | d # ds \<Rightarrow>
             (case decimal_value d of
                None \<Rightarrow> None
              | Some v \<Rightarrow> int_digits (10 * acc + v) ds))
      else
        (case decimal_value c of
           None \<Rightarrow> None
         | Some v \<Rightarrow> int_digits (10 * acc + v) cs))"

definition py_int :: "ustr \<Rightarrow> exn + int" where
  "py_int s =
     (let t = dropWhile int_space s;
          neg = (case t of [] \<Rightarrow> False | c # _ \<Rightarrow> c = 45);
          u = (case t of [] \<Rightarrow> [] | c # r \<Rightarrow> if c = 43 \<or> c = 45 then r else t);
          b = rev (dropWhile int_space (rev u))
      in case b of
           [] \<Rightarrow> Inl ValueError
         | c # cs \<Rightarrow>
             (case decimal_value c of
                None \<Rightarrow> Inl ValueError
              | Some v \<Rightarrow>
                  (case int_digits v cs of
                     None \<Rightarrow> Inl ValueError
                   | Some n \<Rightarrow> Inr (if neg then - int n else int n))))"

section \<open>Key Validator\<close>

text \<open>\<open>s[a:b]\<close> for \<open>0 \<le> a \<le> b\<close>: a slice never raises, it is cut at the end of the string.\<close>

definition slice :: "nat \<Rightarrow> nat \<Rightarrow> ustr \<Rightarrow> ustr" where
  "slice a b s = take (b - a) (drop a s)"

text \<open>\<open>len(set(s))\<close>: the number of distinct characters of \<open>s\<close>.\<close>

definition distintos :: "ustr \<Rightarrow> nat" where
  "distintos s = length (remdups s)"

text \<open>The body of the \<open>try\<close> block of \<open>validar_chave_nfe\<close>: \<open>Inl\<close> is an exception raised by
  one of the conversions, \<open>Inr b\<close> is \<open>return b\<close>.\<close>

definition validar_try :: "ustr \<Rightarrow> exn + bool" where
  "validar_try chave =
     (case py_int (slice 0 2 chave) of
        Inl e \<Rightarrow> Inl e
      | Inr uf \<Rightarrow>
          if uf < 10 \<or> uf > 53 then Inr False
          else
            (case py_int (slice 2 4 chave) of
               Inl e \<Rightarrow> Inl e
             | Inr ano \<Rightarrow>
                 (case py_int (slice 4 6 chave) of
                    Inl e \<Rightarrow> Inl e
                  | Inr mes \<Rightarrow>
                      if mes < 1 \<or> mes > 12 \<or> ano < 0 \<or> ano > 99 then Inr False
                      else if distintos (slice 6 20 chave) \<le> 2 then Inr False
                      else
                        (case py_int (slice 20 22 chave) of
                           Inl e \<Rightarrow> Inl e
                         | Inr modelo \<Rightarrow>
                             if modelo \<notin> set [55, 65, 57, 66] then Inr False
                             else if distintos chave \<le> 5 then Inr False
                             else Inr True))))"

text \<open>The \<open>try\<close> with its bare \<open>except\<close>: every exception becomes \<open>return False\<close>.\<close>

definition validar_geral :: "ustr \<Rightarrow> bool" where
  "validar_geral chave = (case validar_try chave of Inl e \<Rightarrow> False | Inr b \<Rightarrow> b)"

definition validar_chave_nfe :: "ustr \<Rightarrow> bool" where
  "validar_chave_nfe chave =
     (if length chave \<noteq> 44 then False
      else if take 2 chave = [53, 48] then
        (if distintos chave > 5 then True else validar_geral chave)
      else validar_geral chave)"

section \<open>Regular expressions\<close>

text \<open>
  The patterns of the program are concatenations of single-character tests, greedy
  repetitions of a single-character test, the word boundary \<open>\b\<close> and capture groups that
  are not nested. A pattern is a list of items; \<open>Mark\<close> records the current offset and
  stands for an opening or a closing parenthesis.
\<close>

datatype cset =
    Dig
  | Spc
  | Lit codepoint
  | LitI codepoint
  | Rng codepoint codepoint
  | AnyOf "cset list"
  | NoneOf "cset list"

text \<open>A lower-case ASCII letter under \<open>re.IGNORECASE\<close>: the letter, its capital, and the
  code points whose lower case or case equivalence the module maps to it (\<open>U+017F\<close> for s,
  \<open>U+212A\<close> for k, \<open>U+0130\<close> and \<open>U+0131\<close> for i).\<close>

definition ci_match :: "codepoint \<Rightarrow> codepoint \<Rightarrow> bool" where
  "ci_match c x =
     (x = c \<or> x = c - 32 \<or> (c = 115 \<and> x = 383) \<or> (c = 107 \<and> x = 8490)
      \<or> (c = 105 \<and> (x = 304 \<or> x = 305)))"

fun cmatch :: "cset \<Rightarrow> codepoint \<Rightarrow> bool" where
  "cmatch Dig x = is_decimal x"
| "cmatch Spc x = is_space x"
| "cmatch (Lit c) x = (x = c)"
| "cmatch (LitI c) x = ci_match c x"
| "cmatch (Rng lo hi) x = (lo \<le> x \<and> x \<le> hi)"
| "cmatch (AnyOf cs) x = list_ex (\<lambda>c. cmatch c x) cs"
| "cmatch (NoneOf cs) x = (\<not> list_ex (\<lambda>c. cmatch c x) cs)"

datatype item =
    One cset
  | Many cset nat "nat option"
  | WordB
  | Mark

text \<open>\<open>\b\<close>: exactly one of the previous and the next character is a word character; the
  start and the end of the text count as non-word.\<close>

definition word_before :: "codepoint option \<Rightarrow> bool" where
  "word_before p = (case p of None \<Rightarrow> False | Some c \<Rightarrow> is_word c)"

definition word_after :: "ustr \<Rightarrow> bool" where
  "word_after r = (case r of [] \<Rightarrow> False | x # _ \<Rightarrow> is_word x)"

definition boundary :: "codepoint option \<Rightarrow> ustr \<Rightarrow> bool" where
  "boundary p r = (word_before p \<noteq> word_after r)"

fun first_some :: "('a \<Rightarrow> 'b option) \<Rightarrow> 'a list \<Rightarrow> 'b option" where
  "first_some f [] = None"
| "first_some f (x # xs) = (case f x of Some y \<Rightarrow> Some y | None \<Rightarrow> first_some f xs)"

text \<open>
  The backtracking matcher in continuation-passing style. The state is the previous
  character, the rest of the text, the number of characters consumed and the offsets
  recorded so far. A greedy repetition takes as many characters as it may and gives them
  back one at a time until the rest of the pattern matches.
\<close>

type_synonym cont =
  "codepoint option \<Rightarrow> ustr \<Rightarrow> nat \<Rightarrow> nat list \<Rightarrow> (nat \<times> nat list) option"

fun step :: "item \<Rightarrow> cont \<Rightarrow> cont" where
  "step (One c) k p r n ms =
     (case r of
        [] \<Rightarrow> None
      | x # r' \<Rightarrow> if cmatch c x then k (Some x) r' (Suc n) ms else None)"
| "step (Many c lo hi) k p r n ms =
     (let m = length (takeWhile (cmatch c) r);
          top = (case hi of None \<Rightarrow> m | Some h \<Rightarrow> min h m)
      in first_some
           (\<lambda>j. k (if j = 0 then p else Some (r ! (j - 1))) (drop j r) (n + j) ms)
           (rev [lo..<Suc top]))"
| "step WordB k p r n ms = (if boundary p r then k p r n ms else None)"
| "step Mark k p r n ms = k p r n (ms @ [n])"

primrec rmatch :: "item list \<Rightarrow> cont" where
  "rmatch [] p r n ms = Some (n, ms)"
| "rmatch (i # ps) p r n ms = step i (rmatch ps) p r n ms"

text \<open>
  The scan shared by \<open>re.findall\<close> and \<open>re.sub\<close>: the leftmost match, then the search goes
  on where it ended. A segment is a character that no match covers or a match with its
  groups. No pattern of the program matches the empty string; for one that does, the
  model reports the empty match and steps over one character.
\<close>

datatype seg = Skip codepoint | Hit ustr "ustr list"

fun groups :: "ustr \<Rightarrow> nat list \<Rightarrow> ustr list" where
  "groups s (a # b # ms) = slice a b s # groups s ms"
| "groups s ms = []"

function scan :: "item list \<Rightarrow> codepoint option \<Rightarrow> ustr \<Rightarrow> seg list" where
  "scan ps p r =
     (case rmatch ps p r 0 [] of
        None \<Rightarrow> (case r of [] \<Rightarrow> [] | x # r' \<Rightarrow> Skip x # scan ps (Some x) r')
      | Some (n, ms) \<Rightarrow>
          if 0 < n \<and> n \<le> length r
          then Hit (take n r) (groups r ms) # scan ps (Some (r ! (n - 1))) (drop n r)
          else Hit [] (groups r ms)
                 # (case r of [] \<Rightarrow> [] | x # r' \<Rightarrow> Skip x # scan ps (Some x) r'))"
  by pat_completeness auto
termination
  by (relation "measure (\<lambda>(ps, p, r). length r)") auto

declare scan.simps [simp del]

text \<open>\<open>re.findall\<close> gives the whole match for a pattern without groups, the group for a
  pattern with one group, and the pair of groups for a pattern with two.\<close>

definition findall0 :: "item list \<Rightarrow> ustr \<Rightarrow> ustr list" where
  "findall0 ps t = concat (map (\<lambda>s. case s of Hit w gs \<Rightarrow> [w] | Skip c \<Rightarrow> []) (scan ps None t))"

definition findall1 :: "item list \<Rightarrow> ustr \<Rightarrow> ustr list" where
  "findall1 ps t = concat (map (\<lambda>s. case s of Hit w [g] \<Rightarrow> [g] | _ \<Rightarrow> []) (scan ps None t))"

definition findall2 :: "item list \<Rightarrow> ustr \<Rightarrow> (ustr \<times> ustr) list" where
  "findall2 ps t =
     concat (map (\<lambda>s. case s of Hit w [g1, g2] \<Rightarrow> [(g1, g2)] | _ \<Rightarrow> []) (scan ps None t))"

definition re_sub :: "item list \<Rightarrow> ustr \<Rightarrow> ustr \<Rightarrow> ustr" where
  "re_sub ps repl t = concat (map (\<lambda>s. case s of Hit w gs \<Rightarrow> repl | Skip c \<Rightarrow> [c]) (scan ps None t))"

section \<open>The patterns of the program\<close>

abbreviation d4 :: item where "d4 \<equiv> Many Dig 4 (Some 4)"
abbreviation sp1 :: item where "sp1 \<equiv> Many Spc 1 None"
abbreviation sp0 :: item where "sp0 \<equiv> Many Spc 0 None"
abbreviation sep :: item where "sep \<equiv> Many (AnyOf [Lit 46, Spc, Lit 45]) 0 None"

definition lits_ci :: "string \<Rightarrow> item list" where
  "lits_ci s = map (\<lambda>c. One (LitI (of_char c))) s"

definition PADRAO_CHAVE_NFE :: "item list" where
  "PADRAO_CHAVE_NFE = [WordB, Many Dig 44 (Some 44), WordB]"

definition PADRAO_CHAVE_ESPACOS :: "item list" where
  "PADRAO_CHAVE_ESPACOS =
     [WordB, Mark, d4, sp1, d4, sp1, d4, sp1, d4, sp1, d4, sp1, d4, sp1, d4, sp1, d4, sp1,
      d4, sp1, d4, sp1, Many Dig 0 (Some 4), Mark, WordB]"

definition PADRAO_CHAVE_BLOCOS :: "item list" where
  "PADRAO_CHAVE_BLOCOS =
     [WordB, Mark, d4, sep, d4, sep, d4, sep, d4, sep, d4, sep, d4, sep, d4, sep, d4, sep,
      d4, sep, d4, sep, d4, Mark, WordB]"

text \<open>Compiled with \<open>re.IGNORECASE | re.DOTALL\<close>; the pattern has no dot.\<close>

definition PADRAO_ENERGISA_1 :: "item list" where
  "PADRAO_ENERGISA_1 =
     lits_ci ''chave'' @ [sp1] @ lits_ci ''de'' @ [sp1] @ lits_ci ''acesso''
     @ [sp0, Many (Lit 58) 0 (Some 1), sp0, Many (Lit 10) 0 (Some 1), sp0,
        Mark, d4, sp1, d4, sp1, d4, sp1, d4, sp1, d4, sp1, d4, sp1, d4, sp1, d4, sp1,
        d4, sp1, d4, Mark, sp0, One (Lit 10), sp0, Mark, d4, Mark]"

definition PADRAO_ENERGISA_2 :: "item list" where
  "PADRAO_ENERGISA_2 =
     [WordB, Mark, d4, sp1, d4, sp1, d4, sp1, d4, sp1, d4, sp1, d4, sp1, d4, sp1, d4, sp1,
      d4, sp1, d4, Mark, sp0, One (Lit 10), sp0, Mark, d4, Mark, WordB]"

definition PADRAO_DCELT :: "item list" where
  "PADRAO_DCELT =
     [WordB, Mark, d4, sp1, d4, sp1, d4, sp1, d4, sp1, d4, sp1, d4, sp1, d4, sp1, d4, sp1,
      d4, sp1, d4, sp1, d4, Mark, WordB]"

text \<open>The pattern of the digit runs, written inline in \<open>encontrar_chaves_acesso\<close>.\<close>

definition PADRAO_SEQUENCIAS :: "item list" where
  "PADRAO_SEQUENCIAS = [WordB, Many Dig 8 None, WordB]"

section \<open>Digit Normalizer and Scanner\<close>

definition limpar_chave :: "ustr \<Rightarrow> ustr" where
  "limpar_chave chave = re_sub [One (NoneOf [Rng 48 57])] [] chave"

text \<open>A Python set is modelled by a list without repetitions, in insertion order (the
  order of a Python set is unspecified).\<close>

definition set_add :: "'a \<Rightarrow> 'a list \<Rightarrow> 'a list" where
  "set_add x xs = (if x \<in> set xs then xs else xs @ [x])"

definition add_all :: "'a list \<Rightarrow> 'a list \<Rightarrow> 'a list" where
  "add_all xs acc = foldl (\<lambda>a x. set_add x a) acc xs"

text \<open>The windows \<open>seq[i:i+44]\<close> for \<open>i\<close> in \<open>range(len(seq) - 43)\<close>.\<close>

definition janelas :: "ustr \<Rightarrow> ustr list" where
  "janelas seq = map (\<lambda>i. slice i (i + 44) seq) [0..<length seq - 43]"

definition candidatos_sequencias :: "ustr \<Rightarrow> ustr list" where
  "candidatos_sequencias texto =
     concat (map (\<lambda>seq. if length seq \<ge> 44 then janelas seq else [])
                 (findall0 PADRAO_SEQUENCIAS texto))"

text \<open>The set \<open>candidatos\<close> after the seven loops, each loop adding in the order of its
  matches.\<close>

definition candidatos :: "ustr \<Rightarrow> ustr list" where
  "candidatos texto =
     (let c1 = add_all (findall0 PADRAO_CHAVE_NFE texto) [];
          c2 = add_all (map limpar_chave (findall1 PADRAO_CHAVE_ESPACOS texto)) c1;
          c3 = add_all (map limpar_chave (findall1 PADRAO_CHAVE_BLOCOS texto)) c2;
          c4 = add_all (filter (\<lambda>k. length k = 44)
                 (map (\<lambda>(parte1, parte2). limpar_chave (parte1 @ parte2))
                      (findall2 PADRAO_ENERGISA_1 texto))) c3;
          c5 = add_all (filter (\<lambda>k. length k = 44)
                 (map (\<lambda>(parte1, parte2). limpar_chave (parte1 @ parte2))
                      (findall2 PADRAO_ENERGISA_2 texto))) c4;
          c6 = add_all (filter (\<lambda>k. length k = 44)
                 (map limpar_chave (findall1 PADRAO_DCELT texto))) c5
      in add_all (candidatos_sequencias texto) c6)"

definition encontrar_chaves_acesso :: "ustr \<Rightarrow> ustr list" where
  "encontrar_chaves_acesso texto =
     add_all (filter (\<lambda>candidato. length candidato = 44 \<and> validar_chave_nfe candidato)
                     (candidatos texto)) []"

section \<open>Concrete keys used below\<close>

definition chave_50_modelo_99 :: ustr where
  "chave_50_modelo_99 = str ''50250812345678012345998901234567890123456789''"

definition chave_50_letras :: ustr where
  "chave_50_letras = str ''50abcdefghijklmnopqrstuvwxyzabcdefghijklmnop''"

definition chave_sp_modelo_55 :: ustr where
  "chave_sp_modelo_55 = str ''35250812345678012345558901234567890123456789''"


definition texto_cenario :: ustr where
  "texto_cenario =
     str ''Chave de acesso: 3525 0812 3456 7801 2345 6789 0123 4567 8901 2345'' @ [10] @ str ''6789''"

definition texto_cenario_55 :: ustr where
  "texto_cenario_55 =
     str ''Chave de acesso: 3525 0812 3456 7801 2345 5589 0123 4567 8901 2345'' @ [10] @ str ''6789''"

definition texto_arabe :: ustr where
  "texto_arabe = [53, 48] @ concat (replicate 4 [1632, 1633, 1634, 1635, 1636, 1637, 1638, 1639, 1640, 1641]) @ [1632, 1633]"

definition chave_poucos_digitos :: ustr where
  "chave_poucos_digitos = str ''35121212312312312312551111111111111111111111''"

definition uns_50 :: ustr where
  "uns_50 = replicate 50 49"

definition digitos_50 :: ustr where
  "digitos_50 = str ''01234567890123456789012345678901234567890123456789''"

section \<open>Properties of the character classes and of \<open>int\<close>\<close>


lemma distintos_card: "distintos s = card (set s)"
  by (simp add: distintos_def length_remdups_card_conv)

lemma decimal_value_lt10: "decimal_value c = Some v \<Longrightarrow> v < 10"
  by (auto simp: decimal_value_def find_Some_iff split: if_splits option.splits)

lemma nd_zeros_no_space:
  "list_all (\<lambda>z. list_all (\<lambda>s. \<not> (z \<le> s \<and> s < z + 10)) [133, 160, 5760, 8232, 8233, 8239, 8287, 12288]
      \<and> (z + 10 \<le> 8192 \<or> 8202 < z)) nd_zeros"
  by code_simp

lemma decimal_not_space: "is_decimal c \<Longrightarrow> \<not> is_space c"
proof (cases "c < 128")
  case True
  assume "is_decimal c"
  with True show ?thesis
    by (simp add: is_decimal_def decimal_value_def is_space_def split: if_splits)
next
  case False
  assume d: "is_decimal c"
  define L :: "int list" where "L = [133, 160, 5760, 8232, 8233, 8239, 8287, 12288]"
  from d False have "find (\<lambda>z. z \<le> c \<and> c < z + 10) nd_zeros \<noteq> None"
    by (simp add: is_decimal_def decimal_value_def split: option.splits)
  then obtain z where z: "z \<in> set nd_zeros" "z \<le> c" "c < z + 10"
    by (auto simp: find_None_iff)
  from nd_zeros_no_space z(1)
  have a: "list_all (\<lambda>s. \<not> (z \<le> s \<and> s < z + 10)) L" and b: "z + 10 \<le> 8192 \<or> 8202 < z"
    unfolding L_def by (simp_all add: list_all_iff)
  have 1: "c \<notin> set L"
    using a z(2,3) by (auto simp: list_all_iff)
  have 2: "\<not> (8192 \<le> c \<and> c \<le> 8202)"
    using b z(2,3) by arith
  have "is_space c = (c \<in> set L \<or> (8192 \<le> c \<and> c \<le> 8202))"
    using False unfolding is_space_def L_def by simp
  with 1 2 show ?thesis by simp
qed

lemma decimal_not_mark: "is_decimal c \<Longrightarrow> c \<noteq> 43 \<and> c \<noteq> 45 \<and> c \<noteq> 95"
  by (auto simp: is_decimal_def decimal_value_def)

lemma py_int_two_decimals:
  assumes "decimal_value a = Some x" "decimal_value b = Some y"
  shows "py_int [a, b] = Inr (int (10 * x + y))"
proof -
  have da: "is_decimal a" and db: "is_decimal b"
    using assms by (simp_all add: is_decimal_def)
  have sa: "\<not> int_space a" and sb: "\<not> int_space b"
    using da db decimal_not_space by (auto simp: int_space_def)
  from decimal_not_mark[OF da] have ma: "a \<noteq> 43" "a \<noteq> 45" by simp_all
  from decimal_not_mark[OF db] have mb: "b \<noteq> 95" by simp
  show ?thesis
    using assms sa sb ma mb by (simp add: py_int_def Let_def)
qed

lemma slice_two:
  "a + 2 \<le> length s \<Longrightarrow> slice a (a + 2) s = [s ! a, s ! Suc a]"
proof -
  assume h: "a + 2 \<le> length s"
  then have 1: "drop a s = s ! a # drop (Suc a) s"
    by (simp add: Cons_nth_drop_Suc)
  from h have 2: "drop (Suc a) s = s ! Suc a # drop (Suc (Suc a)) s"
    by (simp add: Cons_nth_drop_Suc)
  show ?thesis
    by (simp add: slice_def 1 2)
qed

lemma str_50: "str ''50'' = [53, 48]"
  by (simp add: str_def)


lemma slice_0_2: "slice 0 2 s = take 2 s"
  by (simp add: slice_def)

lemma validar_geral_parses:
  assumes "validar_geral chave"
  shows "\<exists>uf ano mes modelo. py_int (slice 0 2 chave) = Inr uf \<and> py_int (slice 2 4 chave) = Inr ano
           \<and> py_int (slice 4 6 chave) = Inr mes \<and> py_int (slice 20 22 chave) = Inr modelo
           \<and> 5 < distintos chave"
  using assms
  by (auto simp: validar_geral_def validar_try_def split: sum.splits if_splits)

text \<open>
  Claim C4. A string of 44 characters that starts with \<open>50\<close> and has at least six distinct
  characters is accepted whatever its document-model field holds, and the validator accepts
  exactly when the length is 44 and the 50-prefix path or the general structural path
  accepts. At the witness the model field is 99 and the general path rejects.
\<close>

theorem validar_50_disjuncao:
  "(length chave = 44 \<and> take 2 chave = str ''50'' \<and> 6 \<le> card (set chave) \<longrightarrow> validar_chave_nfe chave)
   \<and> (validar_chave_nfe chave \<longleftrightarrow>
        length chave = 44 \<and> ((take 2 chave = str ''50'' \<and> 6 \<le> card (set chave)) \<or> validar_geral chave))"
proof -
  have "6 \<le> card (set chave) \<longleftrightarrow> 5 < distintos chave"
    by (auto simp: distintos_card)
  then show ?thesis
    by (auto simp: validar_chave_nfe_def str_50)
qed

theorem validar_50_disjuncao_witness:
  "length chave_50_modelo_99 = 44 \<and> take 2 chave_50_modelo_99 = str ''50''
   \<and> 6 \<le> card (set chave_50_modelo_99) \<and> py_int (slice 20 22 chave_50_modelo_99) = Inr 99
   \<and> \<not> validar_geral chave_50_modelo_99 \<and> validar_chave_nfe chave_50_modelo_99"
proof -
  have h: "length chave_50_modelo_99 = 44 \<and> take 2 chave_50_modelo_99 = str ''50''
     \<and> 6 \<le> card (set chave_50_modelo_99)"
    by code_simp
  have g: "py_int (slice 20 22 chave_50_modelo_99) = Inr 99 \<and> \<not> validar_geral chave_50_modelo_99"
    by code_simp
  from h g validar_50_disjuncao [of chave_50_modelo_99] show ?thesis
    by blast
qed



text \<open>
  Claim C8. Every string the validator accepts has at least six distinct characters, on
  either acceptance path.
\<close>

theorem validar_seis_distintos:
  "validar_chave_nfe chave \<Longrightarrow> 6 \<le> card (set chave)"
  using validar_geral_parses [of chave]
  by (auto simp: validar_chave_nfe_def distintos_card split: if_splits)

theorem validar_seis_distintos_witness:
  "validar_chave_nfe chave_sp_modelo_55 \<and> 6 \<le> card (set chave_sp_modelo_55)"
proof -
  have h: "validar_chave_nfe chave_sp_modelo_55" by code_simp
  from h validar_seis_distintos [OF h] show ?thesis by simp
qed

text \<open>
  Claim C9. Some string of 44 characters that is not made of digits is accepted: it starts
  with \<open>50\<close> and has more than five distinct characters, so the 50-prefix path returns before
  any conversion, although the \<open>try\<close> block would raise on it.
\<close>

theorem validar_aceita_nao_digitos:
  "\<exists>chave. length chave = 44 \<and> \<not> list_all is_decimal chave
      \<and> take 2 chave = str ''50'' \<and> 5 < distintos chave
      \<and> validar_try chave = Inl ValueError \<and> validar_chave_nfe chave"
proof -
  have "length chave_50_letras = 44 \<and> \<not> list_all is_decimal chave_50_letras
      \<and> take 2 chave_50_letras = str ''50'' \<and> 5 < distintos chave_50_letras
      \<and> validar_try chave_50_letras = Inl ValueError \<and> validar_chave_nfe chave_50_letras"
    by code_simp
  then show ?thesis by blast
qed



section \<open>Normalizer and the end-to-end scenario\<close>

lemma cmatch_nao_digito: "cmatch (NoneOf [Rng 48 57]) x = (\<not> ascii_digit x)"
  by (simp add: ascii_digit_def)

lemma scan_normalizer:
  "concat (map (\<lambda>s. case s of Hit w gs \<Rightarrow> [] | Skip c \<Rightarrow> [c]) (scan [One (NoneOf [Rng 48 57])] p r))
     = filter ascii_digit r"
proof (induction r arbitrary: p)
  case Nil
  show ?case by (subst scan.simps) simp
next
  case (Cons x r)
  show ?case
    by (subst scan.simps) (simp add: Cons.IH cmatch_nao_digito del: cmatch.simps)
qed

lemma limpar_chave_filter: "limpar_chave s = filter ascii_digit s"
  by (simp add: limpar_chave_def re_sub_def scan_normalizer)

text \<open>
  Claim C6. The Digit Normalizer returns exactly the ASCII decimal digits of its argument,
  in their order, and nothing else; it is idempotent; the empty string gives the empty
  string.
\<close>

theorem limpar_chave_digitos:
  "limpar_chave s = filter ascii_digit s
   \<and> limpar_chave (limpar_chave s) = limpar_chave s
   \<and> limpar_chave [] = []"
  by (simp add: limpar_chave_def re_sub_def scan_normalizer)

text \<open>
  Claim C2, as stated, fails: on the text of the scenario the pipeline returns no key at
  all, so it does not return the one key made of the 44 digits and the result is empty.
\<close>

theorem cenario_energisa_sem_chave:
  "encontrar_chaves_acesso texto_cenario \<noteq> [str ''35250812345678012345678901234567890123456789'']
   \<and> encontrar_chaves_acesso texto_cenario = []"
  by code_simp

text \<open>
  Claim C2, amended. On the text of the scenario the Scanner finds one candidate, the 44
  digits of the text; its document-model field (positions 20 and 21) is 67, which is not
  one of 55, 65, 57, 66, so the validator rejects it and the result is empty (the no-key
  outcome). With the sixth group of the text changed from 6789 to 5589 the model field is 55
  and the pipeline returns exactly that one key.
\<close>

theorem cenario_energisa_modelo:
  "candidatos texto_cenario = [str ''35250812345678012345678901234567890123456789'']
   \<and> py_int (slice 20 22 (str ''35250812345678012345678901234567890123456789'')) = Inr 67
   \<and> \<not> validar_chave_nfe (str ''35250812345678012345678901234567890123456789'')
   \<and> encontrar_chaves_acesso texto_cenario = []
   \<and> encontrar_chaves_acesso texto_cenario_55 = [str ''35250812345678012345558901234567890123456789'']"
  by code_simp

section \<open>The Scanner and the final key set\<close>

lemma first_some_SomeD: "first_some f xs = Some y \<Longrightarrow> \<exists>x\<in>set xs. f x = Some y"
  by (induction xs) (auto split: option.splits)

lemma take_takeWhile_all:
  assumes "j \<le> length (takeWhile P r)"
  shows "list_all P (take j r)"
proof -
  have "take j r = take j (takeWhile P r @ dropWhile P r)"
    by simp
  also have "\<dots> = take j (takeWhile P r)"
    using assms by (simp del: takeWhile_dropWhile_id)
  finally have "set (take j r) \<subseteq> set (takeWhile P r)"
    by (simp add: set_take_subset)
  then show ?thesis
    by (auto simp: list_all_iff dest: set_takeWhileD)
qed

lemma cmatch_Dig: "cmatch Dig = is_decimal"
  by (rule ext) simp

lemma rmatch_NFE:
  "rmatch PADRAO_CHAVE_NFE p r 0 [] =
     (if boundary p r \<and> 44 \<le> length (takeWhile is_decimal r)
         \<and> boundary (Some (r ! 43)) (drop 44 r)
      then Some (44, []) else None)"
proof (cases "44 \<le> length (takeWhile is_decimal r)")
  case True
  then have "min 44 (length (takeWhile is_decimal r)) = 44"
    by simp
  then show ?thesis
    using True by (simp add: PADRAO_CHAVE_NFE_def cmatch_Dig Let_def)
next
  case False
  then have "[44..<Suc (min 44 (length (takeWhile is_decimal r)))] = []"
    by simp
  then show ?thesis
    using False by (simp add: PADRAO_CHAVE_NFE_def cmatch_Dig Let_def)
qed

lemma rmatch_SEQ:
  "rmatch PADRAO_SEQUENCIAS p r 0 [] =
     (if boundary p r
      then first_some
             (\<lambda>j. if boundary (if j = 0 then p else Some (r ! (j - 1))) (drop j r)
                  then Some (j, []) else None)
             (rev [8..<Suc (length (takeWhile is_decimal r))])
      else None)"
  by (simp add: PADRAO_SEQUENCIAS_def cmatch_Dig Let_def del: upt_Suc cong: if_cong)

lemma rmatch_NFE_decimal:
  "rmatch PADRAO_CHAVE_NFE p r 0 [] = Some (n, ms) \<Longrightarrow> list_all is_decimal (take n r)"
  by (auto simp: rmatch_NFE take_takeWhile_all split: if_splits)

lemma rmatch_SEQ_decimal:
  assumes "rmatch PADRAO_SEQUENCIAS p r 0 [] = Some (n, ms)"
  shows "list_all is_decimal (take n r)"
proof -
  from assms have "first_some
             (\<lambda>j. if boundary (if j = 0 then p else Some (r ! (j - 1))) (drop j r)
                  then Some (j, []) else None)
             (rev [8..<Suc (length (takeWhile is_decimal r))]) = Some (n, ms)"
    by (simp add: rmatch_SEQ split: if_splits)
  then obtain j where j: "j \<in> set (rev [8..<Suc (length (takeWhile is_decimal r))])"
    and e: "(if boundary (if j = 0 then p else Some (r ! (j - 1))) (drop j r)
                  then Some (j, []) else None) = Some (n, ms)"
    by (blast dest: first_some_SomeD)
  from e have "n = j"
    by (simp split: if_splits)
  with j have "n \<le> length (takeWhile is_decimal r)"
    by auto
  then show ?thesis
    by (rule take_takeWhile_all)
qed

lemma scan_hit_sound:
  "\<forall>p r n ms. rmatch ps p r 0 [] = Some (n, ms) \<longrightarrow> list_all Q (take n r)
   \<Longrightarrow> Hit w gs \<in> set (scan ps p t) \<Longrightarrow> list_all Q w \<and> set w \<subseteq> set t"
proof (induction ps p t rule: scan.induct)
  case (1 ps p r)
  note Q = "1.prems"(1)
  note mem = "1.prems"(2)
  show ?case
  proof (cases "rmatch ps p r 0 []")
    case None
    show ?thesis
    proof (cases r)
      case Nil
      with None mem show ?thesis
        by (subst (asm) scan.simps) simp
    next
      case (Cons x r')
      with None mem have "Hit w gs \<in> set (scan ps (Some x) r')"
        by (subst (asm) scan.simps) simp
      with "1.IH"(1) [OF None Cons Q] Cons show ?thesis
        by auto
    qed
  next
    case (Some res)
    obtain n ms where res: "(n, ms) = res" by (cases res) auto
    show ?thesis
    proof (cases "0 < n \<and> n \<le> length r")
      case True
      from mem Some res True
      have "Hit w gs = Hit (take n r) (groups r ms)
            \<or> Hit w gs \<in> set (scan ps (Some (r ! (n - 1))) (drop n r))"
        by (subst (asm) scan.simps) auto
      then show ?thesis
      proof
        assume "Hit w gs = Hit (take n r) (groups r ms)"
        then have "w = take n r" by simp
        moreover from Some res have "rmatch ps p r 0 [] = Some (n, ms)"
          by simp
        with Q have "list_all Q (take n r)"
          by blast
        ultimately show ?thesis
          by (auto dest: in_set_takeD)
      next
        assume "Hit w gs \<in> set (scan ps (Some (r ! (n - 1))) (drop n r))"
        with "1.IH"(2) [OF Some res True Q] show ?thesis
          by (auto dest: in_set_dropD)
      qed
    next
      case False
      from mem Some res False
      have "w = [] \<or> (\<exists>x r'. r = x # r' \<and> Hit w gs \<in> set (scan ps (Some x) r'))"
        by (subst (asm) scan.simps) (auto split: list.splits)
      then show ?thesis
      proof
        assume "w = []"
        then show ?thesis by simp
      next
        assume "\<exists>x r'. r = x # r' \<and> Hit w gs \<in> set (scan ps (Some x) r')"
        then obtain x r' where r: "r = x # r'" and h: "Hit w gs \<in> set (scan ps (Some x) r')"
          by blast
        from "1.IH"(3) [OF Some res False r Q h] r show ?thesis
          by auto
      qed
    qed
  qed
qed

lemma findall0_sound:
  assumes "\<forall>p r n ms. rmatch ps p r 0 [] = Some (n, ms) \<longrightarrow> list_all Q (take n r)"
    and "w \<in> set (findall0 ps t)"
  shows "list_all Q w \<and> set w \<subseteq> set t"
proof -
  from assms(2) obtain gs where "Hit w gs \<in> set (scan ps None t)"
    by (auto simp: findall0_def split: seg.splits)
  with assms(1) show ?thesis
    by (rule scan_hit_sound)
qed

lemma findall0_NFE_sound:
  "w \<in> set (findall0 PADRAO_CHAVE_NFE t) \<Longrightarrow> list_all is_decimal w \<and> set w \<subseteq> set t"
  by (rule findall0_sound [where Q = is_decimal]) (auto dest: rmatch_NFE_decimal)

lemma findall0_SEQ_sound:
  "w \<in> set (findall0 PADRAO_SEQUENCIAS t) \<Longrightarrow> list_all is_decimal w \<and> set w \<subseteq> set t"
  by (rule findall0_sound [where Q = is_decimal]) (auto dest: rmatch_SEQ_decimal)

lemma janelas_sound:
  assumes "k \<in> set (janelas seq)"
  shows "length k = 44 \<and> set k \<subseteq> set seq"
proof -
  from assms obtain i where i: "i < length seq - 43" and k: "k = slice i (i + 44) seq"
    by (auto simp: janelas_def)
  from i k have "length k = 44"
    by (simp add: slice_def)
  moreover from k have "set k \<subseteq> set seq"
    by (auto simp: slice_def dest: in_set_takeD in_set_dropD)
  ultimately show ?thesis by simp
qed

lemma candidatos_sequencias_sound:
  assumes "k \<in> set (candidatos_sequencias t)"
  shows "length k = 44 \<and> list_all is_decimal k \<and> set k \<subseteq> set t"
proof -
  from assms obtain seq where s: "seq \<in> set (findall0 PADRAO_SEQUENCIAS t)"
    and k: "k \<in> set (janelas seq)"
    by (auto simp: candidatos_sequencias_def split: if_splits)
  from findall0_SEQ_sound [OF s] janelas_sound [OF k] show ?thesis
    by (auto simp: list_all_iff)
qed

lemma set_add_all: "set (add_all xs acc) = set xs \<union> set acc"
  by (induction xs arbitrary: acc) (auto simp: add_all_def set_add_def)

lemma distinct_add_all: "distinct acc \<Longrightarrow> distinct (add_all xs acc)"
  by (induction xs arbitrary: acc) (auto simp: add_all_def set_add_def)

lemma ascii_digit_decimal: "ascii_digit c \<Longrightarrow> is_decimal c"
  by (simp add: ascii_digit_def is_decimal_def decimal_value_def)

lemma limpar_chave_ascii: "list_all ascii_digit (limpar_chave s)"
  by (simp add: limpar_chave_filter list_all_iff)

lemma candidatos_cases:
  assumes "k \<in> set (candidatos t)"
  shows "k \<in> set (findall0 PADRAO_CHAVE_NFE t) \<or> (\<exists>s. k = limpar_chave s)
         \<or> k \<in> set (candidatos_sequencias t)"
  using assms
  by (auto simp: candidatos_def Let_def set_add_all)

lemma candidatos_decimal:
  assumes "k \<in> set (candidatos t)"
  shows "list_all is_decimal k
         \<and> (list_all ascii_digit k \<or> set k \<subseteq> set t)"
proof -
  from candidatos_cases [OF assms]
  consider (a) "k \<in> set (findall0 PADRAO_CHAVE_NFE t)" | (b) s where "k = limpar_chave s"
    | (c) "k \<in> set (candidatos_sequencias t)"
    by blast
  then show ?thesis
  proof cases
    case a
    from findall0_NFE_sound [OF a] show ?thesis by simp
  next
    case b
    with limpar_chave_ascii [of s] show ?thesis
      by (auto simp: list_all_iff dest: ascii_digit_decimal)
  next
    case c
    from candidatos_sequencias_sound [OF c] show ?thesis by simp
  qed
qed

text \<open>
  Claim C1, as stated, fails: the pattern class \<open>\d\<close> accepts the decimal digits of every
  script. The text made of \<open>50\<close> and 42 Arabic-Indic digits is one run of 44 digits; the
  pipeline returns it, and it is not a string of ASCII digits.
\<close>

theorem saida_nao_ascii:
  "encontrar_chaves_acesso texto_arabe = [texto_arabe]
   \<and> length texto_arabe = 44 \<and> \<not> list_all ascii_digit texto_arabe"
  by code_simp

text \<open>
  Claim C1, amended. For every text the result has no repetition, and every string in it
  has exactly 44 characters, each a decimal digit in the sense of \<open>\d\<close>, and satisfies the
  validator. When the only decimal digits of the text are the ASCII ones, every string of
  the result is made of ASCII digits.
\<close>

theorem saida_digitos_validos:
  "distinct (encontrar_chaves_acesso texto)
   \<and> (\<forall>k \<in> set (encontrar_chaves_acesso texto).
         length k = 44 \<and> list_all is_decimal k \<and> validar_chave_nfe k
         \<and> ((\<forall>c \<in> set texto. is_decimal c \<longrightarrow> ascii_digit c) \<longrightarrow> list_all ascii_digit k))"
proof -
  have d: "distinct (encontrar_chaves_acesso texto)"
    by (simp add: encontrar_chaves_acesso_def distinct_add_all)
  have "length k = 44 \<and> list_all is_decimal k \<and> validar_chave_nfe k
         \<and> ((\<forall>c \<in> set texto. is_decimal c \<longrightarrow> ascii_digit c) \<longrightarrow> list_all ascii_digit k)"
    if k: "k \<in> set (encontrar_chaves_acesso texto)" for k
  proof -
    from k have c: "k \<in> set (candidatos texto)" and l: "length k = 44" and v: "validar_chave_nfe k"
      by (auto simp: encontrar_chaves_acesso_def set_add_all)
    from candidatos_decimal [OF c] have dec: "list_all is_decimal k"
      and alt: "list_all ascii_digit k \<or> set k \<subseteq> set texto"
      by simp_all
    have "list_all ascii_digit k" if a: "\<forall>c \<in> set texto. is_decimal c \<longrightarrow> ascii_digit c"
      using alt dec a by (auto simp: list_all_iff)
    with l dec v show ?thesis by blast
  qed
  with d show ?thesis by blast
qed

theorem saida_digitos_validos_witness:
  "encontrar_chaves_acesso texto_cenario_55 = [chave_sp_modelo_55]
   \<and> list_all (\<lambda>c. is_decimal c = ascii_digit c) texto_cenario_55
   \<and> length chave_sp_modelo_55 = 44 \<and> list_all is_decimal chave_sp_modelo_55
   \<and> validar_chave_nfe chave_sp_modelo_55 \<and> list_all ascii_digit chave_sp_modelo_55"
proof -
  have e: "encontrar_chaves_acesso texto_cenario_55 = [chave_sp_modelo_55]"
    by code_simp
  have b: "list_all (\<lambda>c. is_decimal c = ascii_digit c) texto_cenario_55"
    by code_simp
  then have a: "\<forall>c \<in> set texto_cenario_55. is_decimal c \<longrightarrow> ascii_digit c"
    by (simp add: list_all_iff)
  from e have m: "chave_sp_modelo_55 \<in> set (encontrar_chaves_acesso texto_cenario_55)"
    by simp
  from saida_digitos_validos [of texto_cenario_55] m a b e show ?thesis
    by blast
qed

section \<open>A contiguous key is found\<close>

lemma decimal_is_word: "is_decimal c \<Longrightarrow> is_word c"
  by (simp add: is_word_def is_alnum_def)

lemma groups_Nil: "groups r [] = []"
  by simp

lemma scan_Hit:
  "rmatch ps p r 0 [] = Some (n, ms) \<Longrightarrow> 0 < n \<Longrightarrow> n \<le> length r \<Longrightarrow>
   scan ps p r = Hit (take n r) (groups r ms) # scan ps (Some (r ! (n - 1))) (drop n r)"
  by (subst scan.simps) simp

lemma scan_Skip:
  "rmatch ps p (x # r) 0 [] = None \<Longrightarrow> scan ps p (x # r) = Skip x # scan ps (Some x) r"
  by (subst scan.simps) simp

lemma scan_Nil:
  "rmatch ps p [] 0 [] = None \<Longrightarrow> scan ps p [] = []"
  by (subst scan.simps) simp

lemma takeWhile_run:
  "list_all P run \<Longrightarrow> takeWhile P (run @ post) = run @ takeWhile P post"
  by (simp add: list_all_iff takeWhile_append2)

lemma word_after_run:
  "run \<noteq> [] \<Longrightarrow> list_all is_decimal run \<Longrightarrow> word_after (run @ post)"
  by (cases run) (auto simp: word_after_def decimal_is_word)

lemma rmatch_NFE_at_key:
  assumes "length key = 44" and "list_all is_decimal key"
    and "\<not> word_before p" and "\<not> word_after post"
  shows "rmatch PADRAO_CHAVE_NFE p (key @ post) 0 [] = Some (44, [])"
proof -
  from assms(1) have ne: "key \<noteq> []" by auto
  have 1: "boundary p (key @ post)"
    using assms(3) word_after_run [OF ne assms(2)] by (simp add: boundary_def)
  have 2: "44 \<le> length (takeWhile is_decimal (key @ post))"
    using assms(1,2) by (simp add: takeWhile_run)
  have "is_decimal (key ! 43)"
    using assms(1,2) by (simp add: list_all_length)
  then have 3: "boundary (Some ((key @ post) ! 43)) (drop 44 (key @ post))"
    using assms(1,4) by (simp add: boundary_def word_before_def nth_append decimal_is_word)
  from 1 2 3 show ?thesis
    by (simp add: rmatch_NFE)
qed

lemma scan_NFE_finds:
  assumes "length key = 44" and "list_all is_decimal key" and "\<not> word_after post"
  shows "\<not> word_before (if pre = [] then p else Some (last pre))
         \<Longrightarrow> Hit key [] \<in> set (scan PADRAO_CHAVE_NFE p (pre @ key @ post))"
proof (induction "length pre" arbitrary: pre p rule: less_induct)
  case less
  show ?case
  proof (cases pre)
    case Nil
    with less.prems have "\<not> word_before p" by simp
    from rmatch_NFE_at_key [OF assms(1,2) this assms(3)]
    have "scan PADRAO_CHAVE_NFE p (key @ post)
            = Hit (take 44 (key @ post)) (groups (key @ post) [])
              # scan PADRAO_CHAVE_NFE (Some ((key @ post) ! (44 - 1))) (drop 44 (key @ post))"
      using assms(1) by (intro scan_Hit) simp_all
    with Nil assms(1) show ?thesis by simp
  next
    case (Cons x pre')
    let ?r = "pre @ key @ post"
    from Cons less.prems have nw: "\<not> is_word (last pre)"
      by (simp add: word_before_def)
    show ?thesis
    proof (cases "rmatch PADRAO_CHAVE_NFE p ?r 0 []")
      case None
      with Cons have "scan PADRAO_CHAVE_NFE p ?r
            = Skip x # scan PADRAO_CHAVE_NFE (Some x) (pre' @ key @ post)"
        by (simp add: scan_Skip)
      moreover have "\<not> word_before (if pre' = [] then Some x else Some (last pre'))"
        using nw Cons by (auto simp: word_before_def split: if_splits)
      then have "Hit key [] \<in> set (scan PADRAO_CHAVE_NFE (Some x) (pre' @ key @ post))"
        using less.hyps [of pre' "Some x"] Cons by simp
      ultimately show ?thesis by simp
    next
      case (Some res)
      then have res: "res = (44, [])" and tw: "44 \<le> length (takeWhile is_decimal ?r)"
        by (auto simp: rmatch_NFE split: if_splits)
      have lr: "44 \<le> length ?r"
        using tw length_takeWhile_le [of is_decimal ?r] by linarith
      have dec: "list_all is_decimal (take 44 ?r)"
        using tw by (rule take_takeWhile_all)
      have lp: "44 \<le> length pre"
      proof (rule ccontr)
        assume "\<not> 44 \<le> length pre"
        with Cons have i: "length pre - 1 < 44" and ne: "pre \<noteq> []" by auto
        have "take 44 ?r ! (length pre - 1) = ?r ! (length pre - 1)"
          using i by (rule nth_take)
        also have "\<dots> = last pre"
          using ne by (simp add: nth_append last_conv_nth)
        finally have "last pre \<in> set (take 44 ?r)"
          using i lr by (metis length_take min.absorb2 nth_mem)
        with dec have "is_decimal (last pre)"
          by (simp add: list_all_iff)
        with nw show False
          by (simp add: decimal_is_word)
      qed
      from Some res lr have sc: "scan PADRAO_CHAVE_NFE p ?r
            = Hit (take 44 ?r) (groups ?r [])
              # scan PADRAO_CHAVE_NFE (Some (?r ! (44 - 1))) (drop 44 ?r)"
        by (intro scan_Hit) simp_all
      have dr: "drop 44 ?r = drop 44 pre @ key @ post"
        using lp by simp
      have nb: "\<not> word_before (if drop 44 pre = [] then Some (?r ! (44 - 1))
                                  else Some (last (drop 44 pre)))"
      proof (cases "drop 44 pre = []")
        case True
        with lp have l44: "length pre = 44" by simp
        then have "pre \<noteq> []" by auto
        then have "last pre = pre ! 43"
          using l44 by (simp add: last_conv_nth)
        moreover have "?r ! (44 - 1) = pre ! 43"
          using l44 by (simp add: nth_append)
        ultimately have "?r ! (44 - 1) = last pre"
          by simp
        with nw True show ?thesis by (simp add: word_before_def)
      next
        case False
        then have "last (drop 44 pre) = last pre"
          by (simp add: last_drop)
        with nw False show ?thesis by (simp add: word_before_def)
      qed
      have "length (drop 44 pre) < length pre"
        using lp by simp
      from less.hyps [OF this nb]
      have "Hit key [] \<in> set (scan PADRAO_CHAVE_NFE (Some (?r ! (44 - 1))) (drop 44 ?r))"
        unfolding dr .
      with sc show ?thesis by simp
    qed
  qed
qed

lemma py_int_35_55: "py_int (str ''35'') = Inr 35 \<and> py_int (str ''55'') = Inr 55"
  by code_simp

lemma str_35: "str ''35'' = [51, 53]"
  by (simp add: str_def)

lemma findall0_Hit: "Hit w gs \<in> set (scan ps None t) \<Longrightarrow> w \<in> set (findall0 ps t)"
  by (force simp: findall0_def)

lemma candidatos_NFE: "w \<in> set (findall0 PADRAO_CHAVE_NFE t) \<Longrightarrow> w \<in> set (candidatos t)"
  by (simp add: candidatos_def Let_def set_add_all)

lemma validar_sp_55:
  assumes "length key = 44" and "list_all is_decimal key"
    and "slice 0 2 key = str ''35''"
    and "py_int (slice 4 6 key) = Inr mes" and "1 \<le> mes" and "mes \<le> 12"
    and "2 < card (set (slice 6 20 key))"
    and "slice 20 22 key = str ''55''"
    and "5 < card (set key)"
  shows "validar_chave_nfe key"
proof -
  have d: "\<And>i. i < 44 \<Longrightarrow> is_decimal (key ! i)"
    using assms(1,2) by (simp add: list_all_length)
  obtain a b where a: "decimal_value (key ! 2) = Some a" and b: "decimal_value (key ! 3) = Some b"
    using d [of 2] d [of 3] by (auto simp: is_decimal_def)
  have "slice 2 4 key = [key ! 2, key ! 3]"
    using slice_two [of 2 key] assms(1) by (simp add: eval_nat_numeral)
  then have ano: "py_int (slice 2 4 key) = Inr (int (10 * a + b))"
    using py_int_two_decimals [OF a b] by simp
  have "a < 10" "b < 10"
    using decimal_value_lt10 a b by blast+
  then have r: "0 \<le> int (10 * a + b) \<and> int (10 * a + b) \<le> 99"
    by simp
  have uf: "py_int (slice 0 2 key) = Inr 35" and mo: "py_int (slice 20 22 key) = Inr 55"
    using assms(3,8) py_int_35_55 by simp_all
  have "validar_try key = Inr True"
    using uf ano r assms(4,5,6,7,9) mo
    by (simp add: validar_try_def distintos_card)
  then have g: "validar_geral key"
    by (simp add: validar_geral_def)
  have "take 2 key \<noteq> [53, 48]"
    using assms(3) by (simp add: slice_0_2 str_35)
  with g assms(1) show ?thesis
    by (simp add: validar_chave_nfe_def)
qed

text \<open>
  Claim C5, as stated, fails twice. A key with UF 35, date field 1212, three distinct
  characters in the CNPJ field and model 55, but only four distinct digits in all, is found
  by the Scanner and rejected by the validator, so it is not in the result. And a valid
  key that directly follows a letter is not even a candidate, since every pattern that
  could find it asks for a word boundary in front of it.
\<close>

theorem chave_contigua_nao_encontrada:
  "slice 0 2 chave_poucos_digitos = str ''35''
   \<and> py_int (slice 2 4 chave_poucos_digitos) = Inr 12
   \<and> py_int (slice 4 6 chave_poucos_digitos) = Inr 12
   \<and> card (set (slice 6 20 chave_poucos_digitos)) = 3
   \<and> slice 20 22 chave_poucos_digitos = str ''55''
   \<and> length chave_poucos_digitos = 44
   \<and> candidatos chave_poucos_digitos = [chave_poucos_digitos]
   \<and> encontrar_chaves_acesso chave_poucos_digitos = []
   \<and> validar_chave_nfe chave_sp_modelo_55
   \<and> candidatos (str ''x'' @ chave_sp_modelo_55) = []
   \<and> encontrar_chaves_acesso (str ''x'' @ chave_sp_modelo_55) = []"
  by code_simp

text \<open>
  Claim C5, amended. Let a text contain a run of 44 decimal digits with UF 35, a month
  between 1 and 12, more than two distinct characters in the CNPJ field, model 55 and more
  than five distinct characters in all, and let the run be delimited on each side by a
  non-word character or by the end of the text. Then the key is in the candidate set and in
  the final result.
\<close>

theorem chave_contigua_encontrada:
  assumes "length key = 44" and "list_all is_decimal key"
    and "slice 0 2 key = str ''35''"
    and "py_int (slice 4 6 key) = Inr mes" and "1 \<le> mes" and "mes \<le> 12"
    and "2 < card (set (slice 6 20 key))"
    and "slice 20 22 key = str ''55''"
    and "5 < card (set key)"
    and "\<not> word_before (if pre = [] then None else Some (last pre))"
    and "\<not> word_after post"
  shows "key \<in> set (candidatos (pre @ key @ post))
         \<and> key \<in> set (encontrar_chaves_acesso (pre @ key @ post))"
proof -
  have v: "validar_chave_nfe key"
    using assms(1-9) by (rule validar_sp_55)
  have "Hit key [] \<in> set (scan PADRAO_CHAVE_NFE None (pre @ key @ post))"
    using assms(1,2,11,10) by (rule scan_NFE_finds)
  then have c: "key \<in> set (candidatos (pre @ key @ post))"
    by (intro candidatos_NFE findall0_Hit)
  with v assms(1) have "key \<in> set (encontrar_chaves_acesso (pre @ key @ post))"
    by (simp add: encontrar_chaves_acesso_def set_add_all)
  with c show ?thesis by simp
qed

theorem chave_contigua_encontrada_witness:
  "length chave_sp_modelo_55 = 44 \<and> list_all is_decimal chave_sp_modelo_55
   \<and> slice 0 2 chave_sp_modelo_55 = str ''35''
   \<and> py_int (slice 4 6 chave_sp_modelo_55) = Inr 8
   \<and> 2 < card (set (slice 6 20 chave_sp_modelo_55))
   \<and> slice 20 22 chave_sp_modelo_55 = str ''55''
   \<and> 5 < card (set chave_sp_modelo_55)
   \<and> \<not> word_before (if str ''NF-e: '' = [] then None else Some (last (str ''NF-e: '')))
   \<and> \<not> word_after (str '' ok'')
   \<and> chave_sp_modelo_55 \<in> set (candidatos (str ''NF-e: '' @ chave_sp_modelo_55 @ str '' ok''))
   \<and> chave_sp_modelo_55
       \<in> set (encontrar_chaves_acesso (str ''NF-e: '' @ chave_sp_modelo_55 @ str '' ok''))"
proof -
  have h1: "length chave_sp_modelo_55 = 44" by code_simp
  have h2: "list_all is_decimal chave_sp_modelo_55" by code_simp
  have h3: "slice 0 2 chave_sp_modelo_55 = str ''35''" by code_simp
  have h4: "py_int (slice 4 6 chave_sp_modelo_55) = Inr 8" by code_simp
  have h5: "(1::int) \<le> 8" and h6: "(8::int) \<le> 12" by simp_all
  have h7: "2 < card (set (slice 6 20 chave_sp_modelo_55))" by code_simp
  have h8: "slice 20 22 chave_sp_modelo_55 = str ''55''" by code_simp
  have h9: "5 < card (set chave_sp_modelo_55)" by code_simp
  have h10: "\<not> word_before (if str ''NF-e: '' = [] then None else Some (last (str ''NF-e: '')))"
    by code_simp
  have h11: "\<not> word_after (str '' ok'')" by code_simp
  from chave_contigua_encontrada [OF h1 h2 h3 h4 h5 h6 h7 h8 h9 h10 h11]
    h1 h2 h3 h4 h7 h8 h9 h10 h11
  show ?thesis by blast
qed

section \<open>The sliding-window fallback\<close>

lemma concat_map_Nil: "concat (map (\<lambda>x. []) xs) = []"
  by (induction xs) simp_all

lemma takeWhile_none: "list_all (\<lambda>c. \<not> P c) xs \<Longrightarrow> takeWhile P xs = []"
  by (cases xs) simp_all

lemma rmatch_SEQ_Nil: "rmatch PADRAO_SEQUENCIAS p [] 0 [] = None"
  by (simp add: rmatch_SEQ)

lemma scan_SEQ_skip:
  "list_all (\<lambda>c. \<not> is_decimal c) pre \<Longrightarrow>
   scan PADRAO_SEQUENCIAS p (pre @ r)
     = map Skip pre @ scan PADRAO_SEQUENCIAS (if pre = [] then p else Some (last pre)) r"
proof (induction pre arbitrary: p)
  case Nil
  show ?case by simp
next
  case (Cons x pre')
  then have "rmatch PADRAO_SEQUENCIAS p (x # pre' @ r) 0 [] = None"
    by (simp add: rmatch_SEQ)
  then have "scan PADRAO_SEQUENCIAS p (x # pre' @ r)
               = Skip x # scan PADRAO_SEQUENCIAS (Some x) (pre' @ r)"
    by (rule scan_Skip)
  with Cons show ?case
    by simp
qed

lemma scan_SEQ_no_digits:
  assumes "list_all (\<lambda>c. \<not> is_decimal c) post"
  shows "scan PADRAO_SEQUENCIAS p post = map Skip post"
proof -
  have "scan PADRAO_SEQUENCIAS p (post @ [])
          = map Skip post @ scan PADRAO_SEQUENCIAS (if post = [] then p else Some (last post)) []"
    using assms by (rule scan_SEQ_skip)
  then show ?thesis
    by (simp add: scan_Nil rmatch_SEQ_Nil)
qed

lemma rmatch_SEQ_at_run:
  assumes "8 \<le> length run" and "list_all is_decimal run"
    and "list_all (\<lambda>c. \<not> is_decimal c) post"
    and "\<not> word_before p" and "\<not> word_after post"
  shows "rmatch PADRAO_SEQUENCIAS p (run @ post) 0 [] = Some (length run, [])"
proof -
  let ?m = "length run"
  from assms(1) have ne: "run \<noteq> []" by auto
  have tw: "takeWhile is_decimal (run @ post) = run"
    using assms(2,3) by (simp add: takeWhile_run takeWhile_none)
  have b1: "boundary p (run @ post)"
    using assms(4) word_after_run [OF ne assms(2)] by (simp add: boundary_def)
  have "is_decimal (last run)"
    using ne assms(2) by (simp add: list_all_iff)
  moreover have "(run @ post) ! (?m - 1) = last run"
    using ne by (simp add: nth_append last_conv_nth)
  ultimately have b2: "boundary (Some ((run @ post) ! (?m - 1))) (drop ?m (run @ post))"
    using assms(5) by (simp add: boundary_def word_before_def decimal_is_word)
  have up: "rev [8..<Suc ?m] = ?m # rev [8..<?m]"
    using assms(1) by simp
  have m0: "?m \<noteq> 0"
    using ne by simp
  show ?thesis
    using b1 b2 m0 by (simp only: rmatch_SEQ tw up first_some.simps if_True if_False option.case)
qed

lemma findall0_SEQ_run:
  assumes "8 \<le> length run" and "list_all is_decimal run"
    and "list_all (\<lambda>c. \<not> is_decimal c) pre"
    and "list_all (\<lambda>c. \<not> is_decimal c) post"
    and "\<not> word_before (if pre = [] then None else Some (last pre))"
    and "\<not> word_after post"
  shows "findall0 PADRAO_SEQUENCIAS (pre @ run @ post) = [run]"
proof -
  let ?p = "if pre = [] then None else Some (last pre)"
  have 1: "scan PADRAO_SEQUENCIAS None (pre @ run @ post)
             = map Skip pre @ scan PADRAO_SEQUENCIAS ?p (run @ post)"
    using assms(3) by (rule scan_SEQ_skip)
  have m: "rmatch PADRAO_SEQUENCIAS ?p (run @ post) 0 [] = Some (length run, [])"
    using assms(1,2,4,5,6) by (rule rmatch_SEQ_at_run)
  have 2: "scan PADRAO_SEQUENCIAS ?p (run @ post)
             = Hit (take (length run) (run @ post)) (groups (run @ post) [])
               # scan PADRAO_SEQUENCIAS (Some ((run @ post) ! (length run - 1)))
                   (drop (length run) (run @ post))"
    using m assms(1) by (intro scan_Hit) auto
  have 3: "scan PADRAO_SEQUENCIAS (Some ((run @ post) ! (length run - 1))) post = map Skip post"
    using assms(4) by (rule scan_SEQ_no_digits)
  have "scan PADRAO_SEQUENCIAS None (pre @ run @ post)
          = map Skip pre @ Hit run [] # map Skip post"
    using 1 2 3 by simp
  then show ?thesis
    by (simp add: findall0_def o_def concat_map_Nil)
qed

text \<open>
  Claim C3, as stated, fails twice. A run of fifty equal digits has seven windows that are
  all the same string, so the fallback adds one candidate, not seven. And a run of fifty
  digits that directly follows a letter is not matched by the run pattern, which asks for a
  word boundary on both sides: the fallback produces nothing.
\<close>

theorem janelas_nao_distintas:
  "length uns_50 = 50 \<and> list_all is_decimal uns_50
   \<and> candidatos_sequencias uns_50 = replicate 7 (replicate 44 49)
   \<and> card (set (candidatos_sequencias uns_50)) = 1
   \<and> length digitos_50 = 50 \<and> list_all is_decimal digitos_50
   \<and> candidatos_sequencias (str ''x'' @ digitos_50) = []"
  by code_simp

text \<open>
  Claim C3, amended. Let the decimal digits of a text be one run of length 50, delimited on
  each side by a non-word character or by the end of the text. Then the sliding-window
  fallback produces the seven windows \<open>run[i:i+44]\<close> for \<open>i\<close> from 0 to 6, in this order,
  each of 44 digits; as candidates they are at most seven, and exactly seven when the
  windows are pairwise different.
\<close>

theorem janelas_de_50:
  assumes "length run = 50" and "list_all is_decimal run"
    and "list_all (\<lambda>c. \<not> is_decimal c) pre"
    and "list_all (\<lambda>c. \<not> is_decimal c) post"
    and "\<not> word_before (if pre = [] then None else Some (last pre))"
    and "\<not> word_after post"
  shows "candidatos_sequencias (pre @ run @ post) = map (\<lambda>i. slice i (i + 44) run) [0..<7]
     \<and> list_all (\<lambda>k. length k = 44 \<and> list_all is_decimal k)
          (candidatos_sequencias (pre @ run @ post))
     \<and> card (set (candidatos_sequencias (pre @ run @ post))) \<le> 7
     \<and> (card (set (candidatos_sequencias (pre @ run @ post))) = 7)
         = distinct (map (\<lambda>i. slice i (i + 44) run) [0..<7])"
proof -
  let ?c = "candidatos_sequencias (pre @ run @ post)"
  let ?w = "map (\<lambda>i. slice i (i + 44) run) [0..<7]"
  have f: "findall0 PADRAO_SEQUENCIAS (pre @ run @ post) = [run]"
    using assms by (intro findall0_SEQ_run) simp_all
  have c: "?c = ?w"
    using assms(1) by (simp add: candidatos_sequencias_def f janelas_def)
  have a: "list_all (\<lambda>k. length k = 44 \<and> list_all is_decimal k) ?c"
    using candidatos_sequencias_sound [of _ "pre @ run @ post"]
    by (simp add: list_all_iff)
  have l: "length ?w = 7" by simp
  have le: "card (set ?w) \<le> 7"
    using card_length [of ?w] l by simp
  have eq: "(card (set ?w) = 7) = distinct ?w"
    using l card_distinct [of ?w] distinct_card [of ?w] by auto
  from c a le eq show ?thesis
    by simp
qed

theorem janelas_de_50_witness:
  "length digitos_50 = 50 \<and> list_all is_decimal digitos_50
   \<and> list_all (\<lambda>c. \<not> is_decimal c) (str ''a '')
   \<and> list_all (\<lambda>c. \<not> is_decimal c) (str '' b'')
   \<and> \<not> word_before (if str ''a '' = [] then None else Some (last (str ''a '')))
   \<and> \<not> word_after (str '' b'')
   \<and> candidatos_sequencias (str ''a '' @ digitos_50 @ str '' b'')
       = map (\<lambda>i. slice i (i + 44) digitos_50) [0..<7]
   \<and> distinct (map (\<lambda>i. slice i (i + 44) digitos_50) [0..<7])
   \<and> card (set (candidatos_sequencias (str ''a '' @ digitos_50 @ str '' b''))) = 7"
proof -
  have h1: "length digitos_50 = 50" by code_simp
  have h2: "list_all is_decimal digitos_50" by code_simp
  have h3: "list_all (\<lambda>c. \<not> is_decimal c) (str ''a '')" by code_simp
  have h4: "list_all (\<lambda>c. \<not> is_decimal c) (str '' b'')" by code_simp
  have h5: "\<not> word_before (if str ''a '' = [] then None else Some (last (str ''a '')))"
    by code_simp
  have h6: "\<not> word_after (str '' b'')" by code_simp
  have d: "distinct (map (\<lambda>i. slice i (i + 44) digitos_50) [0..<7])" by code_simp
  from janelas_de_50 [OF h1 h2 h3 h4 h5 h6] h1 h2 h3 h4 h5 h6 d
  show ?thesis by blast
qed

end
